theory Spec2Isabelle
  imports Main
begin

section \<open>JavaScript values\<close>

text \<open>
  The settings manager of \<^verbatim>\<open>src/obsidian/Plugin/PluginSettingsManagerBase.ts\<close> works on
  untyped JavaScript values: settings objects, raw records read from \<^verbatim>\<open>data.json\<close>, and
  (because \<^verbatim>\<open>cloneSettings\<close> calls two async methods without awaiting them) promise
  objects. A plain object is an association list in insertion order. Numbers are restricted
  to integers. A \<open>Date\<close> or \<open>Duration\<close> instance is identified by its ISO-8601 string,
  which is also what \<^verbatim>\<open>JSON.stringify\<close> writes for it. \<open>Encoded t s\<close> stands for the
  serializable representation that the transformer with id \<open>t\<close> produces for the instance
  with ISO string \<open>s\<close>. \<open>Promise v\<close> is the promise returned by an async call that was
  not awaited and that resolves to \<open>v\<close>; it has no own enumerable property.
  \<open>Builtin k\<close> is the member \<open>k\<close> that every plain object inherits from
  \<^verbatim>\<open>Object.prototype\<close>: a function, and for \<^verbatim>\<open>__proto__\<close> the prototype object.
\<close>

datatype jsvalue =
    Undefined
  | Null
  | Bool bool
  | Num int
  | Str string
  | Date string
  | Duration string
  | Encoded string string
  | Arr "jsvalue list"
  | Obj "(string \<times> jsvalue) list"
  | Promise jsvalue
  | Builtin string

type_synonym obj = "(string \<times> jsvalue) list"

text \<open>\<^verbatim>\<open>typeof value\<close>; a serializable representation is taken to be an object.\<close>

fun typeof :: "jsvalue \<Rightarrow> string" where
  "typeof Undefined = ''undefined''"
| "typeof (Bool b) = ''boolean''"
| "typeof (Num n) = ''number''"
| "typeof (Str s) = ''string''"
| "typeof (Builtin k) = (if k = ''__proto__'' then ''object'' else ''function'')"
| "typeof v = ''object''"

text \<open>The names every plain object inherits from \<^verbatim>\<open>Object.prototype\<close>.\<close>

definition objectPrototypeNames :: "string list" where
  "objectPrototypeNames =
     [''constructor'', ''hasOwnProperty'', ''isPrototypeOf'', ''propertyIsEnumerable'',
      ''toLocaleString'', ''toString'', ''valueOf'', ''__defineGetter__'',
      ''__defineSetter__'', ''__lookupGetter__'', ''__lookupSetter__'', ''__proto__'']"

text \<open>
  \<^verbatim>\<open>o[k]\<close> on a plain object: the own property when there is one, else the inherited
  member for a name of \<^verbatim>\<open>Object.prototype\<close>, else \<^verbatim>\<open>undefined\<close>.
\<close>

definition getProp :: "obj \<Rightarrow> string \<Rightarrow> jsvalue" where
  "getProp xs k =
     (case map_of xs k of
        Some v \<Rightarrow> v
      | None \<Rightarrow> if k \<in> set objectPrototypeNames then Builtin k else Undefined)"

text \<open>
  \<^verbatim>\<open>o[k] = v\<close>: an existing key keeps its position, a new key goes last. The setter of
  the accessor \<^verbatim>\<open>__proto__\<close> is not modelled: an assignment to that name is an assignment
  like any other.
\<close>

fun setProp :: "(string \<times> 'a) list \<Rightarrow> string \<Rightarrow> 'a \<Rightarrow> (string \<times> 'a) list" where
  "setProp [] k v = [(k, v)]"
| "setProp ((k', v') # xs) k v =
     (if k' = k then (k, v) # xs else (k', v') # setProp xs k v)"

definition keys :: "(string \<times> 'a) list \<Rightarrow> string list" where
  "keys xs = map fst xs"

text \<open>Array indices as property names (decimal).\<close>

definition digit :: "nat \<Rightarrow> char" where
  "digit n = ''0123456789'' ! n"

fun showNat :: "nat \<Rightarrow> string" where
  "showNat n = (if n < 10 then [digit n] else showNat (n div 10) @ [digit (n mod 10)])"

declare showNat.simps [simp del]

text \<open>
  \<^verbatim>\<open>Object.entries(value)\<close> for the values \<^verbatim>\<open>rawRecordToSettings\<close> can receive (its
  callers exclude \<^verbatim>\<open>null\<close>, \<^verbatim>\<open>undefined\<close> and the primitives): the own enumerable
  string-keyed properties, which for an array are its indices.
\<close>

fun entries :: "jsvalue \<Rightarrow> (string \<times> jsvalue) list" where
  "entries (Obj xs) = xs"
| "entries (Arr vs) = zip (map showNat [0..<length vs]) vs"
| "entries v = []"

text \<open>The values \<^verbatim>\<open>JSON.stringify\<close> leaves out: \<^verbatim>\<open>undefined\<close> and functions.\<close>

fun omittedByJSON :: "jsvalue \<Rightarrow> bool" where
  "omittedByJSON Undefined = True"
| "omittedByJSON (Builtin k) = (k \<noteq> ''__proto__'')"
| "omittedByJSON v = False"

text \<open>
  \<^verbatim>\<open>JSON.parse(JSON.stringify(value))\<close> for an object \<open>value\<close>: a property whose value is
  \<^verbatim>\<open>undefined\<close> or a function is omitted, such an array element becomes \<^verbatim>\<open>null\<close>, a
  date or duration becomes its ISO string, and an object without own enumerable
  properties (a promise, the prototype object) becomes \<^verbatim>\<open>{}\<close>.
\<close>

fun jsonRoundTrip :: "jsvalue \<Rightarrow> jsvalue" where
  "jsonRoundTrip (Obj xs) =
     Obj (map (\<lambda>(k, v). (k, jsonRoundTrip v)) (filter (\<lambda>(k, v). \<not> omittedByJSON v) xs))"
| "jsonRoundTrip (Arr vs) =
     Arr (map (\<lambda>v. if omittedByJSON v then Null else jsonRoundTrip v) vs)"
| "jsonRoundTrip (Date s) = Str s"
| "jsonRoundTrip (Duration s) = Str s"
| "jsonRoundTrip (Promise v) = Obj []"
| "jsonRoundTrip (Builtin k) = Obj []"
| "jsonRoundTrip v = v"

subsection \<open>Deep equality\<close>

text \<open>
  Modelled from the spec: \<^verbatim>\<open>deepEqual\<close> of \<^verbatim>\<open>src/Object.ts\<close>, which is not among the
  sources. The spec only calls it deep equality: two plain objects are equal when they have
  the same number of keys and every key of the first has a deep-equal value in the second
  (key order is irrelevant), two arrays when they are equal element by element, other
  values when they are the same value. A promise has no own enumerable property, so it
  compares like an object without keys.
\<close>

function (sequential) deepEqual :: "jsvalue \<Rightarrow> jsvalue \<Rightarrow> bool" where
  "deepEqual (Obj xs) (Obj ys) =
     (length xs = length ys \<and>
      list_all (\<lambda>(k, v). case map_of ys k of None \<Rightarrow> False | Some w \<Rightarrow> deepEqual v w) xs)"
| "deepEqual (Arr xs) (Arr ys) =
     (length xs = length ys \<and> list_all (\<lambda>(v, w). deepEqual v w) (zip xs ys))"
| "deepEqual (Promise a) (Promise b) = True"
| "deepEqual (Promise a) (Obj ys) = (ys = [])"
| "deepEqual (Obj xs) (Promise b) = (xs = [])"
| "deepEqual a b = (a = b)"
  by pat_completeness auto

termination deepEqual
proof (relation "measure (\<lambda>(a, b). size a)")
  show "wf (measure (\<lambda>(a, b). size a))" by simp
next
  fix xs ys :: "(string \<times> jsvalue) list" and x :: "string \<times> jsvalue" and k v w
  assume "x \<in> set xs" and "(k, v) = x"
  then have "(k, v) \<in> set xs" by simp
  moreover have "(k, v) \<in> set zs \<Longrightarrow> size v < size (Obj zs)" for zs
    by (induction zs) auto
  ultimately show "((v, w), (Obj xs, Obj ys)) \<in> measure (\<lambda>(a, b). size a)"
    by simp
next
  fix xs ys :: "jsvalue list" and x :: "jsvalue \<times> jsvalue" and v w
  assume "x \<in> set (zip xs ys)" and "(v, w) = x"
  then have "v \<in> set xs" by (auto dest: set_zip_leftD)
  moreover have "v \<in> set zs \<Longrightarrow> size v < size (Arr zs)" for zs
    by (induction zs) auto
  ultimately show "((v, w), (Arr xs, Arr ys)) \<in> measure (\<lambda>(a, b). size a)"
    by simp
qed

section \<open>Transformers\<close>

text \<open>
  Modelled from the spec: the classes under \<^verbatim>\<open>src/Transformers/\<close> (\<^verbatim>\<open>Transformer\<close>,
  \<^verbatim>\<open>GroupTransformer\<close>, \<^verbatim>\<open>SkipPrivatePropertyTransformer\<close>, \<^verbatim>\<open>DateTransformer\<close>,
  \<^verbatim>\<open>DurationTransformer\<close>) are not among the sources. A transformer is a bidirectional
  converter with a forward operation (typed value to serializable value, the method
  \<^verbatim>\<open>transformObjectRecursively\<close> that the manager calls) and a backward operation
  (serializable value to typed value).
\<close>

record Transformer =
  transformObjectRecursively :: "jsvalue \<Rightarrow> jsvalue"
  transformBackward :: "jsvalue \<Rightarrow> jsvalue"

text \<open>
  Modelled from the spec: a transformer is applied to every own property of an object,
  recursing into nested plain objects and arrays; a value that is neither is handed to the
  leaf conversion, which replaces the values it recognises and passes every other value
  through unchanged. \<open>skip\<close> names the properties that are removed from the output.
\<close>

fun walk :: "(string \<Rightarrow> bool) \<Rightarrow> (jsvalue \<Rightarrow> jsvalue) \<Rightarrow> jsvalue \<Rightarrow> jsvalue" where
  "walk skip leaf (Obj xs) =
     Obj (map (\<lambda>(k, v). (k, walk skip leaf v)) (filter (\<lambda>(k, v). \<not> skip k) xs))"
| "walk skip leaf (Arr vs) = Arr (map (walk skip leaf) vs)"
| "walk skip leaf v = leaf v"

text \<open>
  Modelled from the spec: the private-naming convention of the skip-private transformer,
  taken to be a leading underscore.
\<close>

fun isPrivate :: "string \<Rightarrow> bool" where
  "isPrivate [] = False"
| "isPrivate (c # cs) = (c = CHR ''_'')"

text \<open>
  Modelled from the spec: the skip-private transformer removes private properties from the
  forward output and is a no-op backward.
\<close>

definition SkipPrivatePropertyTransformer :: Transformer where
  "SkipPrivatePropertyTransformer =
     \<lparr>transformObjectRecursively = walk isPrivate (\<lambda>v. v), transformBackward = (\<lambda>v. v)\<rparr>"

text \<open>
  Modelled from the spec: the date transformer replaces a date instance with its
  serializable representation (forward) and reconstructs the instance from it (backward).
\<close>

fun dateForward :: "jsvalue \<Rightarrow> jsvalue" where
  "dateForward (Date s) = Encoded ''date'' s"
| "dateForward v = v"

fun dateBackward :: "jsvalue \<Rightarrow> jsvalue" where
  "dateBackward (Encoded t s) = (if t = ''date'' then Date s else Encoded t s)"
| "dateBackward v = v"

definition DateTransformer :: Transformer where
  "DateTransformer =
     \<lparr>transformObjectRecursively = walk (\<lambda>k. False) dateForward,
      transformBackward = walk (\<lambda>k. False) dateBackward\<rparr>"

text \<open>Modelled from the spec: the duration transformer, likewise.\<close>

fun durationForward :: "jsvalue \<Rightarrow> jsvalue" where
  "durationForward (Duration s) = Encoded ''duration'' s"
| "durationForward v = v"

fun durationBackward :: "jsvalue \<Rightarrow> jsvalue" where
  "durationBackward (Encoded t s) = (if t = ''duration'' then Duration s else Encoded t s)"
| "durationBackward v = v"

definition DurationTransformer :: Transformer where
  "DurationTransformer =
     \<lparr>transformObjectRecursively = walk (\<lambda>k. False) durationForward,
      transformBackward = walk (\<lambda>k. False) durationBackward\<rparr>"

text \<open>
  Modelled from the spec: a chain applies its members in list order forward and in reverse
  list order backward.
\<close>

definition GroupTransformer :: "Transformer list \<Rightarrow> Transformer" where
  "GroupTransformer ts =
     \<lparr>transformObjectRecursively = (\<lambda>v. fold transformObjectRecursively ts v),
      transformBackward = (\<lambda>v. fold transformBackward (rev ts) v)\<rparr>"

text \<open>\<^verbatim>\<open>defaultTransformer\<close> (lines 43-47).\<close>

definition defaultTransformer :: Transformer where
  "defaultTransformer =
     GroupTransformer [SkipPrivatePropertyTransformer, DateTransformer, DurationTransformer]"

section \<open>The settings manager\<close>

text \<open>
  \<^verbatim>\<open>PluginSettingsWrapper\<close>: the three views of a Snapshot. The manager's current wrapper
  holds plain objects. The last-saved wrapper is typed over all values, because
  \<^verbatim>\<open>cloneSettingsWrapper\<close> stores what \<^verbatim>\<open>cloneSettings\<close> returns. The validation
  messages are a plain object as well.
\<close>

record 'a PluginSettingsWrapper =
  safeSettings :: 'a
  settings :: 'a
  validationMessages :: obj

text \<open>
  A validator gets the property's value and the whole settings object and returns a
  message or nothing (\<^verbatim>\<open>MaybeReturn<string>\<close>). Validators are taken not to throw.
\<close>

type_synonym Validator = "jsvalue \<Rightarrow> obj \<Rightarrow> string option"

text \<open>
  What a concrete subclass supplies: the abstract \<^verbatim>\<open>createDefaultSettings\<close>, the calls to
  \<^verbatim>\<open>registerValidator\<close> made by \<^verbatim>\<open>registerValidators\<close> (in order), and the overridable
  \<^verbatim>\<open>getTransformer\<close>, \<^verbatim>\<open>onLoadRecord\<close> and \<^verbatim>\<open>onSavingRecord\<close>. The two record hooks
  mutate the record they are given; the model returns the mutated record. Hooks are taken
  not to throw, and \<^verbatim>\<open>createDefaultSettings\<close> to return a plain object.
\<close>

record managerClass =
  createDefaultSettings :: obj
  registerValidators :: "(string \<times> Validator) list"
  getTransformer :: Transformer
  onLoadRecord :: "jsvalue \<Rightarrow> jsvalue"
  onSavingRecord :: "obj \<Rightarrow> obj"

text \<open>
  What the manager does to its collaborators, in order: records handed to
  \<^verbatim>\<open>plugin.saveData\<close>, calls of the plugin's \<^verbatim>\<open>onLoadSettings\<close> and \<^verbatim>\<open>onSaveSettings\<close>,
  and console output. The host is taken not to fail.
\<close>

datatype effect =
    SaveData jsvalue
  | OnLoadSettings "obj PluginSettingsWrapper" bool
  | OnSaveSettings "obj PluginSettingsWrapper" "jsvalue PluginSettingsWrapper" jsvalue
  | ConsoleError string
  | ConsoleWarn string
  | ConsoleWarnInvalidType jsvalue string jsvalue

text \<open>
  The mutable fields of the manager and the trace of its effects. The readonly fields
  \<^verbatim>\<open>defaultSettings\<close>, \<^verbatim>\<open>propertyNames\<close> and \<^verbatim>\<open>validators\<close> are fixed by the constructor
  and are functions of the subclass below.
\<close>

record manager =
  currentSettingsWrapper :: "obj PluginSettingsWrapper"
  lastSavedSettingsWrapper :: "jsvalue PluginSettingsWrapper"
  trace :: "effect list"

definition defaultSettings :: "managerClass \<Rightarrow> obj" where
  "defaultSettings c = createDefaultSettings c"

text \<open>
  Modelled from the spec: \<^verbatim>\<open>getAllKeys\<close> of \<^verbatim>\<open>src/Object.ts\<close> is not among the
  sources; the fixed property-name list is the default settings' own keys.
\<close>

definition getAllKeys :: "obj \<Rightarrow> string list" where
  "getAllKeys xs = keys xs"

definition propertyNames :: "managerClass \<Rightarrow> string list" where
  "propertyNames c = getAllKeys (createDefaultSettings c)"

text \<open>\<^verbatim>\<open>registerValidator\<close> (lines 261-266): \<^verbatim>\<open>Map.set\<close>, a later registration replaces
  an earlier one for the same property.\<close>

definition registerValidator ::
  "string \<Rightarrow> Validator \<Rightarrow> (string \<times> Validator) list \<Rightarrow> (string \<times> Validator) list" where
  "registerValidator propertyName validator vs = setProp vs propertyName validator"

definition validators :: "managerClass \<Rightarrow> (string \<times> Validator) list" where
  "validators c = fold (\<lambda>(propertyName, validator). registerValidator propertyName validator)
                       (registerValidators c) []"

text \<open>\<^verbatim>\<open>createDefaultSettingsWrapper\<close> (lines 294-300).\<close>

definition createDefaultSettingsWrapper :: "managerClass \<Rightarrow> obj PluginSettingsWrapper" where
  "createDefaultSettingsWrapper c =
     \<lparr>safeSettings = createDefaultSettings c,
      settings = createDefaultSettings c,
      validationMessages = []\<rparr>"

definition asValues :: "obj PluginSettingsWrapper \<Rightarrow> jsvalue PluginSettingsWrapper" where
  "asValues w =
     \<lparr>safeSettings = Obj (safeSettings w),
      settings = Obj (settings w),
      validationMessages = validationMessages w\<rparr>"

text \<open>The constructor (lines 85-92).\<close>

definition construct :: "managerClass \<Rightarrow> manager" where
  "construct c =
     \<lparr>currentSettingsWrapper = createDefaultSettingsWrapper c,
      lastSavedSettingsWrapper = asValues (createDefaultSettingsWrapper c),
      trace = []\<rparr>"

text \<open>Truthiness, as \<^verbatim>\<open>if (v)\<close> and \<^verbatim>\<open>v ? a : b\<close> test it.\<close>

fun truthy :: "jsvalue \<Rightarrow> bool" where
  "truthy Undefined = False"
| "truthy Null = False"
| "truthy (Bool b) = b"
| "truthy (Num n) = (n \<noteq> 0)"
| "truthy (Str s) = (s \<noteq> [])"
| "truthy v = True"

text \<open>\<^verbatim>\<open>v ?? ''\<close>.\<close>

definition orEmptyString :: "jsvalue \<Rightarrow> jsvalue" where
  "orEmptyString v = (if v = Undefined \<or> v = Null then Str [] else v)"

text \<open>
  \<^verbatim>\<open>validate\<close> (lines 214-224). The result is a plain object (\<^verbatim>\<open>{}\<close> at first) that gets
  the non-empty messages as own properties.
\<close>

definition validateStep :: "obj \<Rightarrow> string \<times> Validator \<Rightarrow> obj \<Rightarrow> obj" where
  "validateStep s entry result =
     (case entry of (propertyName, validator) \<Rightarrow>
        (case validator (getProp s propertyName) s of
           None \<Rightarrow> result
         | Some validationMessage \<Rightarrow>
             if validationMessage \<noteq> []
             then setProp result propertyName (Str validationMessage)
             else result))"

definition validate :: "managerClass \<Rightarrow> obj \<Rightarrow> obj" where
  "validate c s = fold (validateStep s) (validators c) []"

text \<open>
  \<^verbatim>\<open>ensureSafe\<close> (lines 114-121); \<^verbatim>\<open>validationResult[propertyName]\<close> is a property read
  on the plain object that \<^verbatim>\<open>validate\<close> returned.
\<close>

definition ensureSafe :: "managerClass \<Rightarrow> obj \<Rightarrow> obj" where
  "ensureSafe c s =
     (let validationResult = validate c s
      in fold (\<lambda>propertyName s'.
                 if truthy (getProp validationResult propertyName)
                 then setProp s' propertyName (getProp (defaultSettings c) propertyName)
                 else s')
              (propertyNames c) s)"

text \<open>\<^verbatim>\<open>isValidPropertyName\<close> (lines 317-323); a key of a record is always a string.\<close>

definition isValidPropertyName :: "managerClass \<Rightarrow> string \<Rightarrow> bool" where
  "isValidPropertyName c prop = (prop \<in> set (propertyNames c))"

text \<open>
  \<^verbatim>\<open>rawRecordToSettings\<close> (lines 325-351). The result is the record as \<^verbatim>\<open>onLoadRecord\<close>
  left it (the caller's \<^verbatim>\<open>data\<close> is the same object), the parsed settings and the
  warnings.
\<close>

definition rawRecordStep ::
  "managerClass \<Rightarrow> string \<times> jsvalue \<Rightarrow> obj \<times> effect list \<Rightarrow> obj \<times> effect list" where
  "rawRecordStep c entry acc =
     (case entry of (propertyName, v) \<Rightarrow>
      (case acc of (s, out) \<Rightarrow>
        if \<not> isValidPropertyName c propertyName
        then (s, out @ [ConsoleWarn (''Unknown property: '' @ propertyName)])
        else (setProp s propertyName v,
              out @ (if typeof v \<noteq> typeof (getProp (defaultSettings c) propertyName)
                     then [ConsoleWarnInvalidType
                             (getProp (defaultSettings c) propertyName) propertyName v]
                     else []))))"

definition rawRecordToSettings :: "managerClass \<Rightarrow> jsvalue \<Rightarrow> jsvalue \<times> obj \<times> effect list" where
  "rawRecordToSettings c rawRecord =
     (let rawRecord' = onLoadRecord c rawRecord;
          (s, out) = fold (rawRecordStep c) (entries rawRecord') (createDefaultSettings c, [])
      in (rawRecord', s, out))"

text \<open>\<^verbatim>\<open>settingsToRawRecord\<close> (lines 367-377).\<close>

definition settingsToRawRecord :: "managerClass \<Rightarrow> obj \<Rightarrow> jsvalue" where
  "settingsToRawRecord c s =
     (let rawRecord = fold (\<lambda>propertyName r. setProp r propertyName (getProp s propertyName))
                           (propertyNames c) []
      in transformObjectRecursively (getTransformer c) (Obj (onSavingRecord c rawRecord)))"

text \<open>
  \<^verbatim>\<open>cloneSettings\<close> (lines 277-282) is not async and awaits neither call: \<open>record\<close> is the
  promise returned by \<^verbatim>\<open>settingsToRawRecord\<close>, and the result is the promise returned by
  \<^verbatim>\<open>rawRecordToSettings\<close>.
\<close>

definition cloneSettings :: "managerClass \<Rightarrow> obj \<Rightarrow> jsvalue \<times> effect list" where
  "cloneSettings c s =
     (let record = Promise (settingsToRawRecord c s);
          cloneRecord = jsonRoundTrip record;
          (r, parsed, out) = rawRecordToSettings c cloneRecord
      in (Promise (Obj parsed), out))"

text \<open>\<^verbatim>\<open>cloneSettingsWrapper\<close> (lines 284-292).\<close>

definition cloneSettingsWrapper ::
  "managerClass \<Rightarrow> obj PluginSettingsWrapper \<Rightarrow> jsvalue PluginSettingsWrapper \<times> effect list" where
  "cloneSettingsWrapper c w =
     (let (safe, out1) = cloneSettings c (safeSettings w);
          (s, out2) = cloneSettings c (settings w)
      in (\<lparr>safeSettings = safe, settings = s, validationMessages = validationMessages w\<rparr>,
          out1 @ out2))"

text \<open>\<^verbatim>\<open>setPropertyImpl\<close> (lines 357-365).\<close>

definition setPropertyImpl ::
  "managerClass \<Rightarrow> string \<Rightarrow> jsvalue \<Rightarrow> jsvalue \<Rightarrow> obj PluginSettingsWrapper
     \<Rightarrow> obj PluginSettingsWrapper" where
  "setPropertyImpl c propertyName v validationMessage w =
     \<lparr>safeSettings = setProp (safeSettings w) propertyName
                       (if truthy validationMessage
                        then getProp (defaultSettings c) propertyName else v),
      settings = setProp (settings w) propertyName v,
      validationMessages = setProp (validationMessages w) propertyName
                             (orEmptyString validationMessage)\<rparr>"

text \<open>
  The wrapper as the object literal it is (keys \<^verbatim>\<open>safeSettings\<close>, \<^verbatim>\<open>settings\<close>,
  \<^verbatim>\<open>validationMessages\<close>).
\<close>

definition wrapperObject :: "obj PluginSettingsWrapper \<Rightarrow> obj" where
  "wrapperObject w =
     [(''safeSettings'', Obj (safeSettings w)),
      (''settings'', Obj (settings w)),
      (''validationMessages'', Obj (validationMessages w))]"

text \<open>
  \<^verbatim>\<open>saveToFileImpl\<close> (lines 353-355): the argument of \<^verbatim>\<open>settingsToRawRecord\<close> is
  \<^verbatim>\<open>this.currentSettingsWrapper\<close>, the wrapper object.
\<close>

definition saveToFileImpl :: "managerClass \<Rightarrow> manager \<Rightarrow> manager" where
  "saveToFileImpl c m =
     m\<lparr>trace := trace m @
          [SaveData (settingsToRawRecord c (wrapperObject (currentSettingsWrapper m)))]\<rparr>"

text \<open>\<^verbatim>\<open>saveToFile\<close> (lines 180-188).\<close>

definition saveToFile :: "managerClass \<Rightarrow> jsvalue \<Rightarrow> manager \<Rightarrow> manager" where
  "saveToFile c context m =
     (if deepEqual (settings (lastSavedSettingsWrapper m))
                   (Obj (settings (currentSettingsWrapper m)))
      then m
      else
        (let m1 = saveToFileImpl c m;
             m2 = m1\<lparr>trace := trace m1 @
                    [OnSaveSettings (currentSettingsWrapper m1)
                                    (lastSavedSettingsWrapper m1) context]\<rparr>;
             (saved, out) = cloneSettingsWrapper c (currentSettingsWrapper m2)
         in m2\<lparr>lastSavedSettingsWrapper := saved, trace := trace m2 @ out\<rparr>))"

text \<open>
  \<^verbatim>\<open>loadFromFile\<close> (lines 141-172); \<open>data\<close> is what \<^verbatim>\<open>plugin.loadData()\<close> resolved to.
\<close>

definition loadFromFile :: "managerClass \<Rightarrow> bool \<Rightarrow> jsvalue \<Rightarrow> manager \<Rightarrow> manager" where
  "loadFromFile c isInitialLoad data m =
     (let m0 = m\<lparr>lastSavedSettingsWrapper := asValues (createDefaultSettingsWrapper c),
                 currentSettingsWrapper := createDefaultSettingsWrapper c\<rparr>
      in if data = Undefined \<or> data = Null then m0
         else if typeof data \<noteq> ''object''
         then m0\<lparr>trace := trace m0 @
                  [ConsoleError (''Invalid settings from data.json. Expected Object, got: ''
                                 @ typeof data)]\<rparr>
         else
           (let (rawRecord, parsedSettings, warnings) = rawRecordToSettings c data;
                validationResult = validate c parsedSettings;
                current = fold (\<lambda>propertyName.
                                  setPropertyImpl c propertyName
                                    (getProp parsedSettings propertyName)
                                    (getProp validationResult propertyName))
                               (propertyNames c) (currentSettingsWrapper m0);
                (saved, out) = cloneSettingsWrapper c current;
                m1 = m0\<lparr>currentSettingsWrapper := current,
                        lastSavedSettingsWrapper := saved,
                        trace := trace m0 @ warnings @ out\<rparr>;
                newRecord = settingsToRawRecord c (settings (currentSettingsWrapper m1));
                m2 = (if \<not> deepEqual newRecord rawRecord then saveToFileImpl c m1 else m1)
            in m2\<lparr>trace := trace m2 @
                     [OnLoadSettings (currentSettingsWrapper m2) isInitialLoad]\<rparr>))"

text \<open>
  \<^verbatim>\<open>edit\<close> (lines 302-315). The editor mutates the settings object it is given and may
  throw: it returns the object as it left it and the thrown value, if any. The
  \<^verbatim>\<open>finally\<close> block runs either way, and \<^verbatim>\<open>edit\<close> then rethrows.
\<close>

type_synonym editor = "obj \<Rightarrow> obj \<times> jsvalue option"

definition editStep ::
  "managerClass \<Rightarrow> obj \<Rightarrow> string \<Rightarrow> obj PluginSettingsWrapper \<Rightarrow> obj PluginSettingsWrapper" where
  "editStep c validationResult propertyName w =
     (let validationMessage = orEmptyString (getProp validationResult propertyName)
      in w\<lparr>validationMessages := setProp (validationMessages w) propertyName validationMessage,
           safeSettings := setProp (safeSettings w) propertyName
                             (if truthy validationMessage
                              then getProp (defaultSettings c) propertyName
                              else getProp (settings w) propertyName)\<rparr>)"

definition edit :: "managerClass \<Rightarrow> editor \<Rightarrow> manager \<Rightarrow> manager \<times> jsvalue option" where
  "edit c settingsEditor m =
     (let (s, thrown) = settingsEditor (settings (currentSettingsWrapper m));
          w = (currentSettingsWrapper m)\<lparr>settings := s\<rparr>;
          validationResult = validate c s
      in (m\<lparr>currentSettingsWrapper := fold (editStep c validationResult) (propertyNames c) w\<rparr>,
          thrown))"

text \<open>\<^verbatim>\<open>setProperty\<close> (lines 198-206).\<close>

definition setProperty ::
  "managerClass \<Rightarrow> string \<Rightarrow> jsvalue \<Rightarrow> manager \<Rightarrow> manager \<times> jsvalue" where
  "setProperty c propertyName v m =
     (let (m', thrown) = edit c (\<lambda>s. (setProp s propertyName v, None)) m
      in (m', getProp (validationMessages (currentSettingsWrapper m')) propertyName))"

text \<open>\<^verbatim>\<open>editAndSave\<close> (lines 101-104): a throwing \<^verbatim>\<open>edit\<close> skips the save.\<close>

definition editAndSave ::
  "managerClass \<Rightarrow> editor \<Rightarrow> jsvalue \<Rightarrow> manager \<Rightarrow> manager \<times> jsvalue option" where
  "editAndSave c settingsEditor context m =
     (case edit c settingsEditor m of
        (m', Some e) \<Rightarrow> (m', Some e)
      | (m', None) \<Rightarrow> (saveToFile c context m', None))"

section \<open>Observations and a running example\<close>

text \<open>The records handed to \<^verbatim>\<open>plugin.saveData\<close> so far.\<close>

fun isSaveData :: "effect \<Rightarrow> bool" where
  "isSaveData (SaveData r) = True"
| "isSaveData e = False"

definition writes :: "manager \<Rightarrow> effect list" where
  "writes m = filter isSaveData (trace m)"

text \<open>
  The rule that ties the three views of a Snapshot together, for the properties of the
  fixed property-name list: the safe value is the default where the message is truthy and
  the stored value otherwise.
\<close>

definition safeValueInvariant :: "managerClass \<Rightarrow> obj PluginSettingsWrapper \<Rightarrow> bool" where
  "safeValueInvariant c w =
     (\<forall>p \<in> set (propertyNames c).
        getProp (safeSettings w) p =
          (if truthy (getProp (validationMessages w) p)
           then getProp (defaultSettings c) p
           else getProp (settings w) p))"

text \<open>
  The scenario of the spec: default settings \<^verbatim>\<open>{retries: 3, name: "x"}\<close>, a validator that
  rejects a negative \<^verbatim>\<open>retries\<close>, the default transformer and the default (no-op) hooks.
\<close>

definition nonNegative :: Validator where
  "nonNegative v s =
     (case v of Num n \<Rightarrow> if n < 0 then Some ''retries must not be negative'' else None
      | _ \<Rightarrow> None)"

definition example :: managerClass where
  "example =
     \<lparr>createDefaultSettings = [(''retries'', Num 3), (''name'', Str ''x'')],
      registerValidators = [(''retries'', nonNegative)],
      getTransformer = defaultTransformer,
      onLoadRecord = (\<lambda>r. r),
      onSavingRecord = (\<lambda>r. r)\<rparr>"

text \<open>An editor that sets \<^verbatim>\<open>retries\<close> to \<open>-1\<close> and then throws.\<close>

definition throwingEditor :: editor where
  "throwingEditor s = (setProp s ''retries'' (Num (- 1)), Some (Str ''boom''))"

text \<open>
  The snapshot-update rule of the spec (4.4), for settings \<open>s\<close> and the validation result
  computed for them: the wrapper holds \<open>s\<close>, and for every property of the fixed
  property-name list the wrapper has, as own properties, the message read off the
  validation result (the empty string when that is \<^verbatim>\<open>undefined\<close>) and the safe value,
  which is the default when that message is truthy and the value in \<open>s\<close> otherwise.
\<close>

definition snapshotUpdateRule ::
  "managerClass \<Rightarrow> obj \<Rightarrow> obj \<Rightarrow> obj PluginSettingsWrapper \<Rightarrow> bool" where
  "snapshotUpdateRule c s validationResult w =
     (settings w = s \<and>
      (\<forall>p \<in> set (propertyNames c).
         map_of (validationMessages w) p = Some (orEmptyString (getProp validationResult p))
         \<and> map_of (safeSettings w) p
           = Some (if truthy (getProp validationResult p)
                   then getProp (defaultSettings c) p else getProp s p)))"

text \<open>
  The host keeps the record in \<^verbatim>\<open>data.json\<close>: what a later \<^verbatim>\<open>plugin.loadData()\<close> returns
  for a record handed to \<^verbatim>\<open>plugin.saveData\<close> is its JSON round trip.
\<close>

definition persisted :: "jsvalue \<Rightarrow> jsvalue" where
  "persisted r = jsonRoundTrip r"

text \<open>A manager whose only setting is a date.\<close>

definition dated :: managerClass where
  "dated =
     \<lparr>createDefaultSettings = [(''since'', Date ''2020-01-01T00:00:00.000Z'')],
      registerValidators = [],
      getTransformer = defaultTransformer,
      onLoadRecord = (\<lambda>r. r),
      onSavingRecord = (\<lambda>r. r)\<rparr>"

text \<open>The example manager after loading the record \<^verbatim>\<open>{retries: 7}\<close>, which lacks \<^verbatim>\<open>name\<close>.\<close>

definition healed :: manager where
  "healed = loadFromFile example True (Obj [(''retries'', Num 7)]) (construct example)"

text \<open>The example manager after \<^verbatim>\<open>setProperty('retries', 5)\<close>.\<close>

definition edited :: manager where
  "edited = fst (setProperty example ''retries'' (Num 5) (construct example))"

text \<open>
  \<^verbatim>\<open>o[k]\<close> for what a view of the last-saved Snapshot can hold: a plain object, or a
  promise, which has no own property and inherits \<^verbatim>\<open>then\<close>, \<^verbatim>\<open>catch\<close> and \<^verbatim>\<open>finally\<close>
  besides the members of \<^verbatim>\<open>Object.prototype\<close>.
\<close>

definition promisePrototypeNames :: "string list" where
  "promisePrototypeNames = [''then'', ''catch'', ''finally'']"

fun readProp :: "jsvalue \<Rightarrow> string \<Rightarrow> jsvalue" where
  "readProp (Obj xs) k = getProp xs k"
| "readProp (Promise v) k =
     (if k \<in> set promisePrototypeNames \<or> k \<in> set objectPrototypeNames
      then Builtin k else Undefined)"
| "readProp v k = Undefined"

text \<open>The example manager after loading the record \<^verbatim>\<open>{retries: -7}\<close>.\<close>

definition loadedInvalid :: manager where
  "loadedInvalid =
     loadFromFile example True (Obj [(''retries'', Num (- 7))]) (construct example)"

text \<open>A manager whose only setting is named \<^verbatim>\<open>valueOf\<close> and has no validator.\<close>

definition shadowing :: managerClass where
  "shadowing =
     \<lparr>createDefaultSettings = [(''valueOf'', Num 1)],
      registerValidators = [],
      getTransformer = defaultTransformer,
      onLoadRecord = (\<lambda>r. r),
      onSavingRecord = (\<lambda>r. r)\<rparr>"

text \<open>The \<^verbatim>\<open>console.error\<close> calls among the effects.\<close>

fun isConsoleError :: "effect \<Rightarrow> bool" where
  "isConsoleError (ConsoleError msg) = True"
| "isConsoleError e = False"

text \<open>
  Modelled from the spec: the supported value shapes of a settings object are all but the
  serializable representations themselves, which the backward direction takes for the
  dates and durations they encode.
\<close>

fun supported :: "jsvalue \<Rightarrow> bool" where
  "supported (Encoded t s) = False"
| "supported (Arr vs) = list_all supported vs"
| "supported (Obj xs) = list_all (\<lambda>(k, v). supported v) xs"
| "supported v = True"

text \<open>
  Modelled from the spec: a value "except for the properties removed by the private-skip
  rule", at every depth.
\<close>

fun removePrivate :: "jsvalue \<Rightarrow> jsvalue" where
  "removePrivate (Obj xs) =
     Obj (map (\<lambda>(k, v). (k, removePrivate v)) (filter (\<lambda>(k, v). \<not> isPrivate k) xs))"
| "removePrivate (Arr vs) = Arr (map removePrivate vs)"
| "removePrivate v = v"

text \<open>An association list stands for an object when its keys are distinct, at every depth.\<close>

fun wellFormed :: "jsvalue \<Rightarrow> bool" where
  "wellFormed (Obj xs) = (distinct (map fst xs) \<and> list_all (\<lambda>(k, v). wellFormed v) xs)"
| "wellFormed (Arr vs) = list_all wellFormed vs"
| "wellFormed (Promise v) = wellFormed v"
| "wellFormed v = True"

text \<open>The date and duration members forward, then backward in reverse order.\<close>

definition leafRoundTrip :: "jsvalue \<Rightarrow> jsvalue" where
  "leafRoundTrip s =
     walk (\<lambda>k. False) dateBackward (walk (\<lambda>k. False) durationBackward
       (walk (\<lambda>k. False) durationForward (walk (\<lambda>k. False) dateForward s)))"

text \<open>A settings object with private properties, dates and a duration, some of them nested.\<close>

definition sample :: jsvalue where
  "sample =
     Obj [(''_cache'', Num 1),
          (''since'', Date ''2024-05-06T07:08:09.000Z''),
          (''every'', Duration ''PT1H''),
          (''history'', Arr [Date ''2020-01-01T00:00:00.000Z'', Str ''a'']),
          (''nested'', Obj [(''_hidden'', Bool True), (''n'', Num 2)])]"

section \<open>Objects\<close>

lemma map_of_setProp: "map_of (setProp xs k v) = (map_of xs)(k \<mapsto> v)"
  by (induction xs) (auto simp: fun_eq_iff)

lemma getProp_setProp: "getProp (setProp xs k v) k' = (if k' = k then v else getProp xs k')"
  by (simp add: getProp_def map_of_setProp)

lemma getProp_own: "map_of xs k = Some v \<Longrightarrow> getProp xs k = v"
  by (simp add: getProp_def)

lemma getProp_absent:
  "map_of xs k = None \<Longrightarrow> k \<notin> set objectPrototypeNames \<Longrightarrow> getProp xs k = Undefined"
  by (simp add: getProp_def)

lemma keys_setProp:
  "keys (setProp xs k v) = (if k \<in> set (keys xs) then keys xs else keys xs @ [k])"
  by (induction xs) (force simp: keys_def)+

lemma set_keys_setProp: "set (keys (setProp xs k v)) = insert k (set (keys xs))"
  by (auto simp: keys_setProp)

lemma truthy_orEmptyString: "truthy (orEmptyString v) = truthy v"
  by (simp add: orEmptyString_def)

section \<open>The snapshot-update loops\<close>

text \<open>What the loop of \<^verbatim>\<open>loadFromFile\<close> over the property names leaves in each view.\<close>

lemma fold_setPropertyImpl_props:
  "map_of (settings (fold (\<lambda>p. setPropertyImpl c p (f p) (g p)) ps w)) q =
     (if q \<in> set ps then Some (f q) else map_of (settings w) q)
   \<and> map_of (safeSettings (fold (\<lambda>p. setPropertyImpl c p (f p) (g p)) ps w)) q =
     (if q \<in> set ps then Some (if truthy (g q) then getProp (defaultSettings c) q else f q)
      else map_of (safeSettings w) q)
   \<and> map_of (validationMessages (fold (\<lambda>p. setPropertyImpl c p (f p) (g p)) ps w)) q =
     (if q \<in> set ps then Some (orEmptyString (g q))
      else map_of (validationMessages w) q)"
proof (induction ps arbitrary: w)
  case Nil
  show ?case by simp
next
  case (Cons p ps)
  show ?case
    by (simp add: Cons.IH) (simp add: setPropertyImpl_def map_of_setProp)
qed

text \<open>The same for the loop in the \<^verbatim>\<open>finally\<close> block of \<^verbatim>\<open>edit\<close>.\<close>

lemma fold_editStep_props:
  "settings (fold (editStep c vr) ps w) = settings w
   \<and> map_of (safeSettings (fold (editStep c vr) ps w)) q =
     (if q \<in> set ps
      then Some (if truthy (getProp vr q)
                 then getProp (defaultSettings c) q else getProp (settings w) q)
      else map_of (safeSettings w) q)
   \<and> map_of (validationMessages (fold (editStep c vr) ps w)) q =
     (if q \<in> set ps then Some (orEmptyString (getProp vr q))
      else map_of (validationMessages w) q)"
proof (induction ps arbitrary: w)
  case Nil
  show ?case by simp
next
  case (Cons p ps)
  show ?case
    by (simp add: Cons.IH)
       (simp add: editStep_def Let_def map_of_setProp truthy_orEmptyString)
qed

lemma currentSettingsWrapper_saveToFileImpl:
  "currentSettingsWrapper (saveToFileImpl c m) = currentSettingsWrapper m"
  by (simp add: saveToFileImpl_def)

lemma currentSettingsWrapper_loadFromFile:
  "currentSettingsWrapper (loadFromFile c i data m) =
     (if data = Undefined \<or> data = Null \<or> typeof data \<noteq> ''object''
      then createDefaultSettingsWrapper c
      else (let parsedSettings = fst (snd (rawRecordToSettings c data));
                validationResult = validate c parsedSettings
            in fold (\<lambda>propertyName.
                       setPropertyImpl c propertyName
                         (getProp parsedSettings propertyName)
                         (getProp validationResult propertyName))
                    (propertyNames c) (createDefaultSettingsWrapper c)))"
  by (simp add: loadFromFile_def Let_def split_beta currentSettingsWrapper_saveToFileImpl)

lemma currentSettingsWrapper_edit:
  "currentSettingsWrapper (fst (edit c ed m)) =
     fold (editStep c (validate c (fst (ed (settings (currentSettingsWrapper m))))))
          (propertyNames c)
          ((currentSettingsWrapper m)\<lparr>settings := fst (ed (settings (currentSettingsWrapper m)))\<rparr>)"
  by (simp add: edit_def Let_def split_beta)

lemma setProperty_edit:
  "fst (setProperty c p v m) = fst (edit c (\<lambda>s. (setProp s p v, None)) m)"
  by (simp add: setProperty_def split_beta)

section \<open>The safe-value invariant in the current Snapshot\<close>

lemma safeValueInvariant_default: "safeValueInvariant c (createDefaultSettingsWrapper c)"
  by (simp add: safeValueInvariant_def createDefaultSettingsWrapper_def defaultSettings_def)

lemma safeValueInvariant_loadFromFile:
  "safeValueInvariant c (currentSettingsWrapper (loadFromFile c i data m))"
  unfolding currentSettingsWrapper_loadFromFile
  by (simp add: safeValueInvariant_default Let_def)
     (simp add: safeValueInvariant_def getProp_def fold_setPropertyImpl_props
        truthy_orEmptyString)

lemma safeValueInvariant_edit:
  "safeValueInvariant c (currentSettingsWrapper (fst (edit c ed m)))"
  unfolding currentSettingsWrapper_edit
  by (simp add: safeValueInvariant_def getProp_def [of "safeSettings _"]
        getProp_def [of "validationMessages _"] fold_editStep_props truthy_orEmptyString)

text \<open>
  In the manager's current Snapshot the invariant holds after construction, after
  \<^verbatim>\<open>loadFromFile\<close> and after \<^verbatim>\<open>edit\<close> or \<^verbatim>\<open>setProperty\<close>, from whatever state:
  every property \<open>p\<close> of the fixed property-name list has \<open>safeSettings[p]\<close> equal to
  \<open>defaultSettings[p]\<close> when \<open>validationMessages[p]\<close> is truthy and equal to
  \<open>settings[p]\<close> otherwise.
\<close>

lemma safeValueInvariant_current:
  "safeValueInvariant c (currentSettingsWrapper (construct c))
   \<and> safeValueInvariant c (currentSettingsWrapper (loadFromFile c isInitialLoad data m))
   \<and> safeValueInvariant c (currentSettingsWrapper (fst (edit c settingsEditor m)))
   \<and> safeValueInvariant c (currentSettingsWrapper (fst (setProperty c propertyName v m)))"
  by (simp add: safeValueInvariant_default construct_def safeValueInvariant_loadFromFile
      safeValueInvariant_edit setProperty_edit)

section \<open>The safe-value invariant in the last-saved Snapshot\<close>

text \<open>
  C1 (safe-value invariant in every Snapshot at rest) fails on the code for the last-saved
  Snapshot. After loading \<^verbatim>\<open>{retries: -7}\<close>, which the validator rejects, the last-saved
  Snapshot has a non-empty message for \<^verbatim>\<open>retries\<close>, but its \<open>safeSettings\<close> is the
  promise that \<^verbatim>\<open>cloneSettings\<close> returned, so \<open>safeSettings[retries]\<close> is
  \<^verbatim>\<open>undefined\<close> and not the default \<open>3\<close>. (The current Snapshot has the default.)
\<close>

theorem last_saved_snapshot_breaks_safe_value:
  "getProp (validationMessages (lastSavedSettingsWrapper loadedInvalid)) ''retries''
     = Str ''retries must not be negative''
   \<and> safeSettings (lastSavedSettingsWrapper loadedInvalid)
     = Promise (Obj [(''retries'', Num 3), (''name'', Str ''x'')])
   \<and> readProp (safeSettings (lastSavedSettingsWrapper loadedInvalid)) ''retries'' = Undefined
   \<and> getProp (defaultSettings example) ''retries'' = Num 3
   \<and> getProp (settings (currentSettingsWrapper loadedInvalid)) ''retries'' = Num (- 7)
   \<and> getProp (safeSettings (currentSettingsWrapper loadedInvalid)) ''retries'' = Num 3"
  by code_simp

section \<open>Loading an absent or malformed record\<close>

text \<open>
  C7, as amended. When the loaded record is absent (\<^verbatim>\<open>undefined\<close> or \<^verbatim>\<open>null\<close>) or is not
  an object by \<^verbatim>\<open>typeof\<close> (a boolean, a number or a string), \<^verbatim>\<open>loadFromFile\<close> returns
  with both Snapshots as the constructor builds them and hands nothing to \<^verbatim>\<open>saveData\<close>;
  in the absent case it has no effect at all, in the malformed case its only effect is one
  \<^verbatim>\<open>console.error\<close>.
\<close>

theorem loadFromFile_absent_or_malformed:
  assumes "data = Undefined \<or> data = Null \<or> typeof data \<noteq> ''object''"
  shows "currentSettingsWrapper (loadFromFile c isInitialLoad data m)
           = currentSettingsWrapper (construct c)
       \<and> lastSavedSettingsWrapper (loadFromFile c isInitialLoad data m)
           = lastSavedSettingsWrapper (construct c)
       \<and> writes (loadFromFile c isInitialLoad data m) = writes m
       \<and> trace (loadFromFile c isInitialLoad data m)
           = trace m @ (if data = Undefined \<or> data = Null then []
                        else [ConsoleError
                                (''Invalid settings from data.json. Expected Object, got: ''
                                 @ typeof data)])"
  using assms by (auto simp: loadFromFile_def construct_def writes_def Let_def)

theorem loadFromFile_absent_or_malformed_witness:
  "typeof (Str ''abc'') \<noteq> ''object''
   \<and> currentSettingsWrapper (loadFromFile example True (Str ''abc'') (construct example))
       = currentSettingsWrapper (construct example)
   \<and> writes (loadFromFile example True (Str ''abc'') (construct example)) = []
   \<and> trace (loadFromFile example True (Str ''abc'') (construct example))
       = [ConsoleError ''Invalid settings from data.json. Expected Object, got: string'']"
proof -
  have h: "Str ''abc'' = Undefined \<or> Str ''abc'' = Null \<or> typeof (Str ''abc'') \<noteq> ''object''"
    by simp
  have w: "writes (construct example) = []" "trace (construct example) = []"
    by (simp_all add: writes_def construct_def)
  show ?thesis
    using loadFromFile_absent_or_malformed [OF h, of example True "construct example"] w
    by simp
qed

text \<open>
  C7 as stated fails for an array, which is present and is not a structured record but has
  \<^verbatim>\<open>typeof\<close> \<^verbatim>\<open>'object'\<close>: loading \<^verbatim>\<open>[5]\<close> passes the guard, logs a warning for the
  index \<^verbatim>\<open>0\<close> and no error, replaces the last-saved Snapshot and writes to
  \<^verbatim>\<open>saveData\<close>.
\<close>

theorem loadFromFile_array:
  "typeof (Arr [Num 5]) = ''object''
   \<and> writes (loadFromFile example True (Arr [Num 5]) (construct example))
     = [SaveData (Obj [(''retries'', Undefined), (''name'', Undefined)])]
   \<and> filter isConsoleError (trace (loadFromFile example True (Arr [Num 5]) (construct example)))
     = []
   \<and> ConsoleWarn ''Unknown property: 0''
       \<in> set (trace (loadFromFile example True (Arr [Num 5]) (construct example)))
   \<and> lastSavedSettingsWrapper (loadFromFile example True (Arr [Num 5]) (construct example))
     \<noteq> lastSavedSettingsWrapper (construct example)"
  by code_simp

section \<open>Properties without a validator\<close>

lemma keys_fold_registerValidator:
  "set (keys (fold (\<lambda>(n, v). registerValidator n v) regs acc)) = set (keys acc) \<union> fst ` set regs"
  by (induction regs arbitrary: acc) (auto simp: registerValidator_def set_keys_setProp)

lemma keys_fold_validateStep:
  "set (keys (fold (validateStep s) vs acc)) \<subseteq> set (keys acc) \<union> set (keys vs)"
proof (induction vs arbitrary: acc)
  case Nil
  show ?case by simp
next
  case (Cons e vs)
  have "set (keys (validateStep s e acc)) \<subseteq> insert (fst e) (set (keys acc))"
    by (cases e) (auto simp: validateStep_def set_keys_setProp split: option.splits)
  with Cons.IH [of "validateStep s e acc"] show ?case
    by (auto simp: keys_def)
qed

lemma map_of_None_keys: "map_of xs k = None \<longleftrightarrow> k \<notin> set (keys xs)"
  by (simp add: keys_def map_of_eq_None_iff)

text \<open>\<^verbatim>\<open>validate\<close> gives its result no own property for a name without a validator.\<close>

lemma validate_unregistered:
  assumes "p \<notin> set (keys (validators c))"
  shows "map_of (validate c s) p = None"
proof -
  have "set (keys (validate c s)) \<subseteq> set (keys (validators c))"
    using keys_fold_validateStep [of s "validators c" "[]"] by (simp add: validate_def keys_def)
  with assms show ?thesis by (auto simp: map_of_None_keys)
qed

lemma fold_ensureSafe_other:
  "\<not> truthy (vr p) \<Longrightarrow>
   map_of (fold (\<lambda>q s'. if truthy (vr q) then setProp s' q (d q) else s') ps s) p = map_of s p"
  by (induction ps arbitrary: s) (auto simp: map_of_setProp)

lemma ensureSafe_unregistered:
  assumes "p \<notin> set (keys (validators c))" and "p \<notin> set objectPrototypeNames"
  shows "map_of (ensureSafe c s) p = map_of s p"
proof -
  have "\<not> truthy (getProp (validate c s) p)"
    using validate_unregistered [OF assms(1), of s] assms(2) by (simp add: getProp_def)
  then show ?thesis
    by (simp add: ensureSafe_def Let_def fold_ensureSafe_other)
qed

text \<open>
  C10, as amended. For a property \<open>p\<close> of the fixed property-name list that has no
  registered validator and whose name is not one inherited from \<^verbatim>\<open>Object.prototype\<close>,
  \<^verbatim>\<open>validate\<close> never reports a message for \<open>p\<close>; \<open>validationMessages[p]\<close> is
  \<^verbatim>\<open>undefined\<close> after construction and after loading an absent or non-object record, and
  is the empty string after loading an object, after \<^verbatim>\<open>edit\<close> and after
  \<^verbatim>\<open>setProperty\<close>; in all of these \<open>safeSettings[p]\<close> equals \<open>settings[p]\<close>; and
  \<^verbatim>\<open>ensureSafe\<close> leaves \<open>p\<close> as it is.
\<close>

theorem unvalidated_property:
  assumes "p \<in> set (propertyNames c)" and "p \<notin> set (keys (validators c))"
    and "p \<notin> set objectPrototypeNames"
  shows "map_of (validate c s) p = None
    \<and> getProp (validationMessages (currentSettingsWrapper (construct c))) p = Undefined
    \<and> getProp (safeSettings (currentSettingsWrapper (construct c))) p
        = getProp (settings (currentSettingsWrapper (construct c))) p
    \<and> getProp (validationMessages (currentSettingsWrapper (loadFromFile c isInitialLoad data m))) p
        = (if data = Undefined \<or> data = Null \<or> typeof data \<noteq> ''object''
           then Undefined else Str [])
    \<and> getProp (safeSettings (currentSettingsWrapper (loadFromFile c isInitialLoad data m))) p
        = getProp (settings (currentSettingsWrapper (loadFromFile c isInitialLoad data m))) p
    \<and> getProp (validationMessages (currentSettingsWrapper (fst (edit c settingsEditor m)))) p
        = Str []
    \<and> getProp (safeSettings (currentSettingsWrapper (fst (edit c settingsEditor m)))) p
        = getProp (settings (currentSettingsWrapper (fst (edit c settingsEditor m)))) p
    \<and> getProp (validationMessages (currentSettingsWrapper (fst (setProperty c q v m)))) p
        = Str []
    \<and> getProp (safeSettings (currentSettingsWrapper (fst (setProperty c q v m)))) p
        = getProp (settings (currentSettingsWrapper (fst (setProperty c q v m)))) p
    \<and> map_of (ensureSafe c s) p = map_of s p"
proof -
  have v: "getProp (validate c t) p = Undefined" for t
    using validate_unregistered [OF assms(2), of t] assms(3) by (simp add: getProp_def)
  have 1: "map_of (validate c s) p = None"
    by (rule validate_unregistered [OF assms(2)])
  have 2: "getProp (validationMessages (currentSettingsWrapper (construct c))) p = Undefined"
    "getProp (safeSettings (currentSettingsWrapper (construct c))) p
        = getProp (settings (currentSettingsWrapper (construct c))) p"
    using assms(3) by (simp_all add: construct_def createDefaultSettingsWrapper_def getProp_def)
  have 3: "getProp (validationMessages (currentSettingsWrapper (loadFromFile c isInitialLoad data m))) p
        = (if data = Undefined \<or> data = Null \<or> typeof data \<noteq> ''object''
           then Undefined else Str [])"
    "getProp (safeSettings (currentSettingsWrapper (loadFromFile c isInitialLoad data m))) p
        = getProp (settings (currentSettingsWrapper (loadFromFile c isInitialLoad data m))) p"
    using assms(1,3)
    by (simp_all add: currentSettingsWrapper_loadFromFile Let_def
        getProp_def [of "validationMessages _"] getProp_def [of "safeSettings _"]
        getProp_def [of "settings _"] getProp_def [of "[]"]
        fold_setPropertyImpl_props v orEmptyString_def createDefaultSettingsWrapper_def)
  have 4: "getProp (validationMessages (currentSettingsWrapper (fst (edit c ed m)))) p = Str []"
    "getProp (safeSettings (currentSettingsWrapper (fst (edit c ed m)))) p
        = getProp (settings (currentSettingsWrapper (fst (edit c ed m)))) p" for ed
    using assms(1)
    by (simp_all add: currentSettingsWrapper_edit
        getProp_def [of "validationMessages _"] getProp_def [of "safeSettings _"]
        fold_editStep_props v orEmptyString_def)
  have 5: "map_of (ensureSafe c s) p = map_of s p"
    by (rule ensureSafe_unregistered [OF assms(2,3)])
  show ?thesis
    using 1 2 3 4 5 by (simp add: setProperty_edit)
qed

text \<open>
  C10 as stated fails right after construction: the wrapper is built with
  \<^verbatim>\<open>validationMessages: {}\<close>, so the message of \<^verbatim>\<open>name\<close> (which has no validator) is
  \<^verbatim>\<open>undefined\<close>, not the empty string.
\<close>

theorem validationMessages_after_construction:
  "''name'' \<in> set (propertyNames example)
   \<and> ''name'' \<notin> set (keys (validators example))
   \<and> getProp (validationMessages (currentSettingsWrapper (construct example))) ''name''
       = Undefined
   \<and> getProp (validationMessages (currentSettingsWrapper (construct example))) ''name''
       \<noteq> Str ''''"
  by code_simp

theorem unvalidated_property_witness:
  "''name'' \<in> set (propertyNames example)
   \<and> ''name'' \<notin> set (keys (validators example))
   \<and> ''name'' \<notin> set objectPrototypeNames
   \<and> getProp (validationMessages (currentSettingsWrapper
        (fst (setProperty example ''name'' (Str ''y'') (construct example))))) ''name'' = Str []
   \<and> getProp (safeSettings (currentSettingsWrapper
        (fst (setProperty example ''name'' (Str ''y'') (construct example))))) ''name'' = Str ''y''"
proof -
  have a: "''name'' \<in> set (propertyNames example)" by code_simp
  have b: "''name'' \<notin> set (keys (validators example))" by code_simp
  have n: "''name'' \<notin> set objectPrototypeNames" by code_simp
  have c: "getProp (settings (currentSettingsWrapper
        (fst (setProperty example ''name'' (Str ''y'') (construct example))))) ''name'' = Str ''y''"
    by code_simp
  show ?thesis
    using unvalidated_property [OF a b n, where q = "''name''" and v = "Str ''y''"
        and m = "construct example"] a b n c
    by simp
qed

text \<open>
  A setting whose name is inherited from \<^verbatim>\<open>Object.prototype\<close> and that has no validator:
  \<^verbatim>\<open>validate\<close> reports nothing for it, yet the manager reads the inherited function as
  its message.
\<close>

lemma inherited_name_read_as_message:
  "''valueOf'' \<in> set (propertyNames shadowing)
   \<and> validate shadowing [(''valueOf'', Num 2)] = []
   \<and> getProp (validationMessages (currentSettingsWrapper
        (fst (setProperty shadowing ''valueOf'' (Num 2) (construct shadowing))))) ''valueOf''
       = Builtin ''valueOf''
   \<and> getProp (settings (currentSettingsWrapper
        (fst (setProperty shadowing ''valueOf'' (Num 2) (construct shadowing))))) ''valueOf''
       = Num 2
   \<and> getProp (safeSettings (currentSettingsWrapper
        (fst (setProperty shadowing ''valueOf'' (Num 2) (construct shadowing))))) ''valueOf''
       = Num 1
   \<and> ensureSafe shadowing [(''valueOf'', Num 2)] = [(''valueOf'', Num 1)]"
  by code_simp

section \<open>Editing\<close>

text \<open>
  C6 (edit exception safety). Whatever the editor does to the settings object and whether
  or not it throws, \<^verbatim>\<open>edit\<close> returns with the editor's exception (if any) propagated, with
  the settings as the editor left them, and with the validation messages and safe values
  of all properties recomputed from those settings by the snapshot-update rule; it touches
  neither the last-saved Snapshot nor the collaborators. \<^verbatim>\<open>editAndSave\<close> propagates the
  exception in the same state (it does not save).
\<close>

theorem edit_exception_safety:
  assumes "settingsEditor (settings (currentSettingsWrapper m)) = (s, thrown)"
  shows "snd (edit c settingsEditor m) = thrown
    \<and> snapshotUpdateRule c s (validate c s) (currentSettingsWrapper (fst (edit c settingsEditor m)))
    \<and> lastSavedSettingsWrapper (fst (edit c settingsEditor m)) = lastSavedSettingsWrapper m
    \<and> trace (fst (edit c settingsEditor m)) = trace m
    \<and> (thrown \<noteq> None \<longrightarrow>
         editAndSave c settingsEditor context m = edit c settingsEditor m)"
proof -
  have e: "edit c settingsEditor m =
      (m\<lparr>currentSettingsWrapper :=
           fold (editStep c (validate c s)) (propertyNames c)
                ((currentSettingsWrapper m)\<lparr>settings := s\<rparr>)\<rparr>, thrown)"
    using assms by (simp add: edit_def)
  have r: "snapshotUpdateRule c s (validate c s)
             (fold (editStep c (validate c s)) (propertyNames c)
                   ((currentSettingsWrapper m)\<lparr>settings := s\<rparr>))"
    by (simp add: snapshotUpdateRule_def fold_editStep_props)
  have s: "thrown \<noteq> None \<longrightarrow> editAndSave c settingsEditor context m = edit c settingsEditor m"
    by (auto simp: editAndSave_def e)
  show ?thesis using r s by (simp add: e)
qed

theorem edit_exception_safety_witness:
  "throwingEditor (settings (currentSettingsWrapper (construct example)))
     = ([(''retries'', Num (- 1)), (''name'', Str ''x'')], Some (Str ''boom''))
   \<and> snd (edit example throwingEditor (construct example)) = Some (Str ''boom'')
   \<and> settings (currentSettingsWrapper (fst (edit example throwingEditor (construct example))))
       = [(''retries'', Num (- 1)), (''name'', Str ''x'')]
   \<and> map_of (validationMessages (currentSettingsWrapper
         (fst (edit example throwingEditor (construct example))))) ''retries''
       = Some (Str ''retries must not be negative'')
   \<and> map_of (safeSettings (currentSettingsWrapper
         (fst (edit example throwingEditor (construct example))))) ''retries'' = Some (Num 3)"
proof -
  have h: "throwingEditor (settings (currentSettingsWrapper (construct example)))
     = ([(''retries'', Num (- 1)), (''name'', Str ''x'')], Some (Str ''boom''))"
    by code_simp
  have v: "getProp (validate example [(''retries'', Num (- 1)), (''name'', Str ''x'')]) ''retries''
             = Str ''retries must not be negative''"
    by code_simp
  have n: "propertyNames example = [''retries'', ''name'']"
    by code_simp
  have d: "getProp (defaultSettings example) ''retries'' = Num 3"
    by code_simp
  show ?thesis
    using edit_exception_safety [where settingsEditor = throwingEditor and m = "construct example"
        and c = example, OF h] h
    by (simp add: snapshotUpdateRule_def v n d orEmptyString_def)
qed

section \<open>Loading a record with unknown properties\<close>

lemma fold_setPropertyImpl_keys:
  "set (keys (settings (fold (\<lambda>p. setPropertyImpl c p (f p) (g p)) ps w)))
     = set (keys (settings w)) \<union> set ps
   \<and> set (keys (safeSettings (fold (\<lambda>p. setPropertyImpl c p (f p) (g p)) ps w)))
     = set (keys (safeSettings w)) \<union> set ps
   \<and> set (keys (validationMessages (fold (\<lambda>p. setPropertyImpl c p (f p) (g p)) ps w)))
     = set (keys (validationMessages w)) \<union> set ps"
proof (induction ps arbitrary: w)
  case Nil
  show ?case by simp
next
  case (Cons p ps)
  show ?case
    by (simp add: Cons.IH) (auto simp: setPropertyImpl_def set_keys_setProp)
qed

lemma fold_rawRecordStep_mono:
  "set (snd acc) \<subseteq> set (snd (fold (rawRecordStep c) es acc))"
proof (induction es arbitrary: acc)
  case Nil
  show ?case by simp
next
  case (Cons e es)
  have "set (snd acc) \<subseteq> set (snd (rawRecordStep c e acc))"
    by (cases e; cases acc) (auto simp: rawRecordStep_def)
  with Cons.IH [of "rawRecordStep c e acc"] show ?case by auto
qed

lemma fold_rawRecordStep_unknown:
  assumes "(k, v) \<in> set es" and "\<not> isValidPropertyName c k"
  shows "ConsoleWarn (''Unknown property: '' @ k) \<in> set (snd (fold (rawRecordStep c) es acc))"
  using assms
proof (induction es arbitrary: acc)
  case Nil
  then show ?case by simp
next
  case (Cons e es)
  show ?case
  proof (cases "e = (k, v)")
    case True
    have "ConsoleWarn (''Unknown property: '' @ k) \<in> set (snd (rawRecordStep c e acc))"
      using True Cons.prems(2) by (cases acc) (simp add: rawRecordStep_def)
    with fold_rawRecordStep_mono [of "rawRecordStep c e acc" c es] show ?thesis by auto
  next
    case False
    with Cons.prems have "(k, v) \<in> set es" by simp
    from Cons.IH [OF this Cons.prems(2)] show ?thesis by simp
  qed
qed

lemma fold_rawRecordStep_keys:
  "set (keys (fst (fold (rawRecordStep c) es acc))) \<subseteq> set (keys (fst acc)) \<union> set (propertyNames c)"
proof (induction es arbitrary: acc)
  case Nil
  show ?case by simp
next
  case (Cons e es)
  have "set (keys (fst (rawRecordStep c e acc))) \<subseteq> set (keys (fst acc)) \<union> set (propertyNames c)"
    by (cases e; cases acc) (auto simp: rawRecordStep_def set_keys_setProp isValidPropertyName_def)
  with Cons.IH [of "rawRecordStep c e acc"] show ?case by auto
qed

lemma trace_saveToFileImpl:
  "trace (saveToFileImpl c m) =
     trace m @ [SaveData (settingsToRawRecord c (wrapperObject (currentSettingsWrapper m)))]"
  by (simp add: saveToFileImpl_def)

lemma warnings_loadFromFile:
  assumes "data \<noteq> Undefined" and "data \<noteq> Null" and "typeof data = ''object''"
  shows "set (snd (snd (rawRecordToSettings c data))) \<subseteq> set (trace (loadFromFile c i data m))"
  using assms
  by (auto simp: loadFromFile_def Let_def split_beta trace_saveToFileImpl)

lemma keys_Nil: "keys [] = []"
  by (simp add: keys_def)

lemma keys_createDefaultSettings: "set (keys (createDefaultSettings c)) = set (propertyNames c)"
  by (simp add: propertyNames_def getAllKeys_def)

text \<open>
  C8 (unknown-property tolerance). When the loaded record is an object and (as
  \<^verbatim>\<open>onLoadRecord\<close> leaves it) has a property whose name is not in the fixed property-name
  list, \<^verbatim>\<open>loadFromFile\<close> logs the warning \<^verbatim>\<open>Unknown property: <name>\<close>, and in the
  resulting current Snapshot the key sets of \<open>settings\<close>, \<open>safeSettings\<close> and
  \<open>validationMessages\<close> are exactly the fixed property-name set, so the unknown key is
  not among the settings.
\<close>

theorem unknown_property_tolerance:
  assumes "data \<noteq> Null" and "typeof data = ''object''"
    and "(k, v) \<in> set (entries (onLoadRecord c data))"
    and "k \<notin> set (propertyNames c)"
  shows "ConsoleWarn (''Unknown property: '' @ k)
           \<in> set (trace (loadFromFile c isInitialLoad data m))
    \<and> set (keys (settings (currentSettingsWrapper (loadFromFile c isInitialLoad data m))))
        = set (propertyNames c)
    \<and> set (keys (safeSettings (currentSettingsWrapper (loadFromFile c isInitialLoad data m))))
        = set (propertyNames c)
    \<and> set (keys (validationMessages (currentSettingsWrapper (loadFromFile c isInitialLoad data m))))
        = set (propertyNames c)
    \<and> map_of (settings (currentSettingsWrapper (loadFromFile c isInitialLoad data m))) k = None"
proof -
  from assms(2) have u: "data \<noteq> Undefined" by auto
  have "ConsoleWarn (''Unknown property: '' @ k) \<in> set (snd (snd (rawRecordToSettings c data)))"
    using fold_rawRecordStep_unknown [OF assms(3), of c "(createDefaultSettings c, [])"] assms(4)
    by (simp add: rawRecordToSettings_def Let_def split_beta isValidPropertyName_def)
  with warnings_loadFromFile [OF u assms(1,2)]
  have 1: "ConsoleWarn (''Unknown property: '' @ k)
             \<in> set (trace (loadFromFile c isInitialLoad data m))"
    by blast
  have 2: "set (keys (settings (currentSettingsWrapper (loadFromFile c isInitialLoad data m))))
        = set (propertyNames c)"
    "set (keys (safeSettings (currentSettingsWrapper (loadFromFile c isInitialLoad data m))))
        = set (propertyNames c)"
    "set (keys (validationMessages (currentSettingsWrapper (loadFromFile c isInitialLoad data m))))
        = set (propertyNames c)"
    using u assms(1,2)
    by (simp_all add: currentSettingsWrapper_loadFromFile Let_def fold_setPropertyImpl_keys
        createDefaultSettingsWrapper_def keys_createDefaultSettings keys_Nil)
  from 2(1) assms(4)
  have 3: "map_of (settings (currentSettingsWrapper (loadFromFile c isInitialLoad data m))) k = None"
    by (simp add: map_of_eq_None_iff keys_def)
  from 1 2 3 show ?thesis by simp
qed

theorem unknown_property_tolerance_witness:
  "typeof (Obj [(''retries'', Num 7), (''doesNotExist'', Num 1)]) = ''object''
   \<and> (''doesNotExist'', Num 1)
        \<in> set (entries (onLoadRecord example (Obj [(''retries'', Num 7), (''doesNotExist'', Num 1)])))
   \<and> ''doesNotExist'' \<notin> set (propertyNames example)
   \<and> ConsoleWarn ''Unknown property: doesNotExist''
        \<in> set (trace (loadFromFile example True
                 (Obj [(''retries'', Num 7), (''doesNotExist'', Num 1)]) (construct example)))
   \<and> set (keys (settings (currentSettingsWrapper (loadFromFile example True
                 (Obj [(''retries'', Num 7), (''doesNotExist'', Num 1)]) (construct example)))))
        = {''retries'', ''name''}"
proof -
  let ?d = "Obj [(''retries'', Num 7), (''doesNotExist'', Num 1)]"
  have a: "?d \<noteq> Null" by simp
  have b: "typeof ?d = ''object''" by simp
  have c: "(''doesNotExist'', Num 1) \<in> set (entries (onLoadRecord example ?d))"
    by (simp add: example_def)
  have d: "''doesNotExist'' \<notin> set (propertyNames example)" by code_simp
  have n: "set (propertyNames example) = {''retries'', ''name''}" by code_simp
  show ?thesis
    using unknown_property_tolerance [OF a b c d, of True "construct example"] b c d n
    by simp
qed

section \<open>Saving\<close>

text \<open>The dirty check: nothing happens when the two settings are deep-equal.\<close>

lemma saveToFile_clean:
  "deepEqual (settings (lastSavedSettingsWrapper m)) (Obj (settings (currentSettingsWrapper m)))
   \<Longrightarrow> saveToFile c context m = m"
  by (simp add: saveToFile_def)

text \<open>What \<^verbatim>\<open>cloneSettings\<close> returns is a promise, and cloning writes nothing.\<close>

lemma cloneSettings_Promise: "\<exists>v. fst (cloneSettings c s) = Promise v"
  by (simp add: cloneSettings_def Let_def split_beta)

lemma isSaveData_rawRecordStep:
  "filter isSaveData (snd (rawRecordStep c e acc)) = filter isSaveData (snd acc)"
  by (cases e; cases acc) (simp add: rawRecordStep_def)

lemma isSaveData_fold_rawRecordStep:
  "filter isSaveData (snd (fold (rawRecordStep c) es acc)) = filter isSaveData (snd acc)"
  by (induction es arbitrary: acc) (simp_all add: isSaveData_rawRecordStep)

lemma isSaveData_cloneSettings: "filter isSaveData (snd (cloneSettings c s)) = []"
  using isSaveData_fold_rawRecordStep [of c _ "(createDefaultSettings c, [])"]
  by (simp add: cloneSettings_def rawRecordToSettings_def Let_def split_beta)

lemma isSaveData_cloneSettingsWrapper: "filter isSaveData (snd (cloneSettingsWrapper c w)) = []"
  by (simp add: cloneSettingsWrapper_def Let_def split_beta isSaveData_cloneSettings)

text \<open>
  A save that is not skipped writes the record built from the wrapper object, leaves the
  current Snapshot alone and stores a promise as the last-saved settings.
\<close>

lemma saveToFile_dirty:
  assumes "\<not> deepEqual (settings (lastSavedSettingsWrapper m))
                        (Obj (settings (currentSettingsWrapper m)))"
  shows "writes (saveToFile c context m) =
           writes m @ [SaveData (settingsToRawRecord c (wrapperObject (currentSettingsWrapper m)))]"
    and "currentSettingsWrapper (saveToFile c context m) = currentSettingsWrapper m"
    and "\<exists>v. settings (lastSavedSettingsWrapper (saveToFile c context m)) = Promise v"
  using assms cloneSettings_Promise [of c "settings (currentSettingsWrapper m)"]
  by (auto simp: saveToFile_def Let_def split_beta writes_def saveToFileImpl_def
      isSaveData_cloneSettings cloneSettingsWrapper_def)

text \<open>
  So, for every manager with at least one setting, a save that is not skipped is followed
  by another save that is not skipped either.
\<close>

lemma saveToFile_twice:
  assumes "\<not> deepEqual (settings (lastSavedSettingsWrapper m))
                        (Obj (settings (currentSettingsWrapper m)))"
    and "settings (currentSettingsWrapper m) \<noteq> []"
  shows "length (writes (saveToFile c context (saveToFile c context m))) = length (writes m) + 2"
proof -
  let ?m = "saveToFile c context m"
  from saveToFile_dirty(3) [OF assms(1)] obtain v
    where v: "settings (lastSavedSettingsWrapper ?m) = Promise v" by blast
  have "\<not> deepEqual (settings (lastSavedSettingsWrapper ?m)) (Obj (settings (currentSettingsWrapper ?m)))"
    using assms(2) by (simp add: v saveToFile_dirty(2) [OF assms(1)])
  from saveToFile_dirty(1) [OF this] saveToFile_dirty(1) [OF assms(1)]
  show ?thesis by simp
qed

text \<open>
  C2 (dirty-check idempotence) fails on the code. After \<^verbatim>\<open>setProperty('retries', 5)\<close> the
  first \<^verbatim>\<open>saveToFile\<close> writes once and leaves the current Snapshot alone, but it stores as
  last-saved settings the promise that \<^verbatim>\<open>cloneSettings\<close> returns; the promise is not
  deep-equal to the current settings, so a second \<^verbatim>\<open>saveToFile\<close> right after it writes
  again: two writes without an edit in between.
\<close>

theorem saveToFile_twice_writes_twice:
  "settings (currentSettingsWrapper edited) = [(''retries'', Num 5), (''name'', Str ''x'')]
   \<and> length (writes (saveToFile example Undefined edited)) = 1
   \<and> currentSettingsWrapper (saveToFile example Undefined edited) = currentSettingsWrapper edited
   \<and> settings (lastSavedSettingsWrapper (saveToFile example Undefined edited))
       = Promise (Obj [(''retries'', Num 3), (''name'', Str ''x'')])
   \<and> length (writes (saveToFile example Undefined (saveToFile example Undefined edited))) = 2"
  by code_simp

text \<open>
  C3 fails on the code. After \<^verbatim>\<open>setProperty('retries', 5)\<close> the forward transformation of
  the current settings is \<^verbatim>\<open>{retries: 5, name: "x"}\<close>, but the record \<^verbatim>\<open>saveToFile\<close> hands
  to \<^verbatim>\<open>saveData\<close> is \<^verbatim>\<open>{retries: undefined, name: undefined}\<close>: \<^verbatim>\<open>saveToFileImpl\<close> reads
  the property names off the wrapper object, not off its settings.
\<close>

theorem saveToFile_writes_wrapper_fields:
  "settings (currentSettingsWrapper edited) = [(''retries'', Num 5), (''name'', Str ''x'')]
   \<and> settingsToRawRecord example (settings (currentSettingsWrapper edited))
       = Obj [(''retries'', Num 5), (''name'', Str ''x'')]
   \<and> writes (saveToFile example Undefined edited)
       = [SaveData (Obj [(''retries'', Undefined), (''name'', Undefined)])]"
  by code_simp

section \<open>Loading\<close>

text \<open>\<^verbatim>\<open>rawRecordToSettings\<close> never consults the transformer.\<close>

lemma rawRecordStep_getTransformer:
  "rawRecordStep (c\<lparr>getTransformer := t\<rparr>) = rawRecordStep c"
  by (simp add: fun_eq_iff rawRecordStep_def isValidPropertyName_def propertyNames_def
      defaultSettings_def)

lemma rawRecordToSettings_getTransformer:
  "rawRecordToSettings (c\<lparr>getTransformer := t\<rparr>) r = rawRecordToSettings c r"
  by (simp add: rawRecordToSettings_def rawRecordStep_getTransformer)

text \<open>
  C4 fails on the code. For a manager whose setting \<^verbatim>\<open>since\<close> is a date, saving the date
  of 2024-05-06 writes its serializable representation, and the backward transformation of
  that record gives the date back; but \<^verbatim>\<open>rawRecordToSettings\<close>, and so \<^verbatim>\<open>loadFromFile\<close>,
  stores the raw value itself, the serializable representation, as the setting.
\<close>

theorem rawRecordToSettings_keeps_raw_value:
  "settingsToRawRecord dated [(''since'', Date ''2024-05-06T07:08:09.000Z'')]
     = Obj [(''since'', Encoded ''date'' ''2024-05-06T07:08:09.000Z'')]
   \<and> transformBackward (getTransformer dated)
         (Obj [(''since'', Encoded ''date'' ''2024-05-06T07:08:09.000Z'')])
     = Obj [(''since'', Date ''2024-05-06T07:08:09.000Z'')]
   \<and> fst (snd (rawRecordToSettings dated
         (Obj [(''since'', Encoded ''date'' ''2024-05-06T07:08:09.000Z'')])))
     = [(''since'', Encoded ''date'' ''2024-05-06T07:08:09.000Z'')]
   \<and> settings (currentSettingsWrapper (loadFromFile dated True
         (Obj [(''since'', Encoded ''date'' ''2024-05-06T07:08:09.000Z'')]) (construct dated)))
     = [(''since'', Encoded ''date'' ''2024-05-06T07:08:09.000Z'')]"
  by code_simp

text \<open>
  C5 (self-healing write-back) fails on the code. Loading \<^verbatim>\<open>{retries: 7}\<close> parses to
  \<^verbatim>\<open>{retries: 7, name: "x"}\<close>, whose re-serialization differs from the record, and one
  write-back follows; but what is written is \<^verbatim>\<open>{retries: undefined, name: undefined}\<close>, not
  the re-serialized form. \<^verbatim>\<open>data.json\<close> then holds \<^verbatim>\<open>{}\<close>, and loading it again writes
  back a second time (and the loaded \<^verbatim>\<open>retries\<close> is lost). Were the written object
  itself loaded again, nothing would be written, but every setting would be
  \<^verbatim>\<open>undefined\<close>.
\<close>

theorem loadFromFile_write_back_not_healing:
  "settings (currentSettingsWrapper healed) = [(''retries'', Num 7), (''name'', Str ''x'')]
   \<and> settingsToRawRecord example (settings (currentSettingsWrapper healed))
     = Obj [(''retries'', Num 7), (''name'', Str ''x'')]
   \<and> writes healed = [SaveData (Obj [(''retries'', Undefined), (''name'', Undefined)])]
   \<and> persisted (Obj [(''retries'', Undefined), (''name'', Undefined)]) = Obj []
   \<and> writes (loadFromFile example False (Obj []) healed)
     = [SaveData (Obj [(''retries'', Undefined), (''name'', Undefined)]),
        SaveData (Obj [(''retries'', Undefined), (''name'', Undefined)])]
   \<and> settings (currentSettingsWrapper (loadFromFile example False (Obj []) healed))
     = [(''retries'', Num 3), (''name'', Str ''x'')]
   \<and> writes (loadFromFile example False
         (Obj [(''retries'', Undefined), (''name'', Undefined)]) healed)
     = [SaveData (Obj [(''retries'', Undefined), (''name'', Undefined)])]
   \<and> settings (currentSettingsWrapper (loadFromFile example False
         (Obj [(''retries'', Undefined), (''name'', Undefined)]) healed))
     = [(''retries'', Undefined), (''name'', Undefined)]"
  by code_simp

section \<open>The transformer chain\<close>

lemma walk_isPrivate: "walk isPrivate (\<lambda>v. v) s = removePrivate s"
  by (induction s) (auto simp: list.pred_set)

lemma supported_removePrivate: "supported s \<Longrightarrow> supported (removePrivate s)"
  by (induction s) (auto simp: list_all_iff)

lemma leaf_cases:
  "supported v \<Longrightarrow> (\<And>xs. v \<noteq> Obj xs) \<Longrightarrow> (\<And>vs. v \<noteq> Arr vs) \<Longrightarrow> leafRoundTrip v = v"
  by (cases v) (auto simp: leafRoundTrip_def)

lemma leafRoundTrip_supported: "supported s \<Longrightarrow> leafRoundTrip s = s"
proof (induction s)
  case (Arr vs)
  then have "\<And>v. v \<in> set vs \<Longrightarrow> leafRoundTrip v = v"
    by (auto simp: list_all_iff)
  then show ?case
    by (simp add: leafRoundTrip_def map_idI)
next
  case (Obj xs)
  then have "\<And>k v. (k, v) \<in> set xs \<Longrightarrow> leafRoundTrip v = v"
    by (fastforce simp: list_all_iff)
  then have "map ((\<lambda>(k, v). (k, walk (\<lambda>k. False) dateBackward v)) \<circ>
               ((\<lambda>(k, v). (k, walk (\<lambda>k. False) durationBackward v)) \<circ>
                ((\<lambda>(k, v). (k, walk (\<lambda>k. False) durationForward v)) \<circ>
                 (\<lambda>(k, v). (k, walk (\<lambda>k. False) dateForward v))))) xs = xs"
    by (intro map_idI) (auto simp: leafRoundTrip_def)
  then show ?case
    by (simp add: leafRoundTrip_def)
qed (simp_all add: leafRoundTrip_def)

lemma defaultTransformer_forward:
  "transformObjectRecursively defaultTransformer s =
     walk (\<lambda>k. False) durationForward (walk (\<lambda>k. False) dateForward (walk isPrivate (\<lambda>v. v) s))"
  by (simp add: defaultTransformer_def GroupTransformer_def SkipPrivatePropertyTransformer_def
      DateTransformer_def DurationTransformer_def)

lemma defaultTransformer_backward:
  "transformBackward defaultTransformer s =
     walk (\<lambda>k. False) dateBackward (walk (\<lambda>k. False) durationBackward s)"
  by (simp add: defaultTransformer_def GroupTransformer_def SkipPrivatePropertyTransformer_def
      DateTransformer_def DurationTransformer_def)

lemma defaultTransformer_roundTrip:
  assumes "supported s"
  shows "transformBackward defaultTransformer (transformObjectRecursively defaultTransformer s)
           = removePrivate s"
  using leafRoundTrip_supported [OF supported_removePrivate [OF assms]]
  by (simp add: defaultTransformer_forward defaultTransformer_backward walk_isPrivate
      leafRoundTrip_def)

lemma wellFormed_removePrivate: "wellFormed s \<Longrightarrow> wellFormed (removePrivate s)"
proof (induction s)
  case (Obj xs)
  have "map fst (map (\<lambda>(k, v). (k, removePrivate v)) (filter (\<lambda>(k, v). \<not> isPrivate k) xs))
          = filter (\<lambda>k. \<not> isPrivate k) (map fst xs)"
    by (induction xs) auto
  with Obj show ?case
    by (fastforce simp: list_all_iff distinct_map_filter)
qed (auto simp: list_all_iff)

lemma deepEqual_refl: "wellFormed s \<Longrightarrow> deepEqual s s"
proof (induction s)
  case (Arr vs)
  then show ?case
    by (auto simp: list_all_iff set_zip)
next
  case (Obj xs)
  then have d: "distinct (map fst xs)" by simp
  have "\<And>k v. (k, v) \<in> set xs \<Longrightarrow> map_of xs k = Some v \<and> deepEqual v v"
    using Obj d by (fastforce simp: list_all_iff)
  then show ?case
    by (auto simp: list_all_iff)
qed simp_all


lemma GroupTransformer_Cons:
  "transformObjectRecursively (GroupTransformer (t # ts)) v
     = transformObjectRecursively (GroupTransformer ts) (transformObjectRecursively t v)"
  "transformBackward (GroupTransformer (t # ts)) v
     = transformBackward t (transformBackward (GroupTransformer ts) v)"
  by (simp_all add: GroupTransformer_def)

text \<open>
  C9 (Transformer Chain round-trip). For every settings value \<open>s\<close> of supported shape, the
  default chain's forward transformation followed by its backward transformation gives
  \<open>s\<close> without its private properties, which for a well-formed \<open>s\<close> is in particular
  deep-equal to it; and a chain applies its members in list order forward and in reverse
  list order backward.
\<close>

theorem transformer_chain_round_trip:
  assumes "supported s" and "wellFormed s"
  shows "transformBackward defaultTransformer (transformObjectRecursively defaultTransformer s)
           = removePrivate s
    \<and> deepEqual
         (transformBackward defaultTransformer (transformObjectRecursively defaultTransformer s))
         (removePrivate s)
    \<and> transformObjectRecursively (GroupTransformer (t # ts)) v
         = transformObjectRecursively (GroupTransformer ts) (transformObjectRecursively t v)
    \<and> transformBackward (GroupTransformer (t # ts)) v
         = transformBackward t (transformBackward (GroupTransformer ts) v)"
  using defaultTransformer_roundTrip [OF assms(1)]
    deepEqual_refl [OF wellFormed_removePrivate [OF assms(2)]]
  by (simp add: GroupTransformer_Cons)

theorem transformer_chain_round_trip_witness:
  "supported sample \<and> wellFormed sample
   \<and> transformObjectRecursively defaultTransformer sample
       = Obj [(''since'', Encoded ''date'' ''2024-05-06T07:08:09.000Z''),
              (''every'', Encoded ''duration'' ''PT1H''),
              (''history'', Arr [Encoded ''date'' ''2020-01-01T00:00:00.000Z'', Str ''a'']),
              (''nested'', Obj [(''n'', Num 2)])]
   \<and> transformBackward defaultTransformer (transformObjectRecursively defaultTransformer sample)
       = Obj [(''since'', Date ''2024-05-06T07:08:09.000Z''),
              (''every'', Duration ''PT1H''),
              (''history'', Arr [Date ''2020-01-01T00:00:00.000Z'', Str ''a'']),
              (''nested'', Obj [(''n'', Num 2)])]"
proof -
  have a: "supported sample" by code_simp
  have b: "wellFormed sample" by code_simp
  have f: "transformObjectRecursively defaultTransformer sample
       = Obj [(''since'', Encoded ''date'' ''2024-05-06T07:08:09.000Z''),
              (''every'', Encoded ''duration'' ''PT1H''),
              (''history'', Arr [Encoded ''date'' ''2020-01-01T00:00:00.000Z'', Str ''a'']),
              (''nested'', Obj [(''n'', Num 2)])]"
    by code_simp
  have r: "removePrivate sample
       = Obj [(''since'', Date ''2024-05-06T07:08:09.000Z''),
              (''every'', Duration ''PT1H''),
              (''history'', Arr [Date ''2020-01-01T00:00:00.000Z'', Str ''a'']),
              (''nested'', Obj [(''n'', Num 2)])]"
    by code_simp
  show ?thesis
    using transformer_chain_round_trip [OF a b] a b f r by simp
qed

end
